theory Spec2Isabelle
  imports Main
begin

section \<open>Python values, exceptions and string primitives\<close>

text \<open>
  The rules engine of \<^verbatim>\<open>chess_arena.py\<close> (class \<^verbatim>\<open>Board\<close>) works on Python
  integers, one-character strings and lists of lists. Integers are \<^typ>\<open>int\<close>, strings are
  \<^typ>\<open>string\<close> read as ASCII text, a one-character string is a \<^typ>\<open>char\<close>, and
  \<^verbatim>\<open>None\<close> is \<^term>\<open>None\<close>.

  Every exception the code can raise is a value of \<open>error\<close>. \<open>ValueError\<close> is the
  exception of \<^verbatim>\<open>int(...)\<close> and \<^verbatim>\<open>chr(...)\<close>; \<open>Bad_UCI u\<close> and \<open>Illegal_move u\<close>
  are the two \<^verbatim>\<open>ValueError\<close>s that \<^verbatim>\<open>apply_uci\<close> raises itself, with the messages
  \<^verbatim>\<open>Bad UCI: ...\<close> and \<^verbatim>\<open>Illegal move: ...\<close>. \<open>NoProgress\<close> marks a ray walk with
  the zero direction, where the source loop would not end; the direction tables never
  contain it.
\<close>

datatype error = IndexError | ValueError | Bad_UCI string | Illegal_move string | NoProgress

definition bindE :: "error + 'a \<Rightarrow> ('a \<Rightarrow> error + 'b) \<Rightarrow> error + 'b" where
  "bindE m f = (case m of Inl e \<Rightarrow> Inl e | Inr x \<Rightarrow> f x)"

text \<open>\<^verbatim>\<open>a and b\<close> on computations that may raise: \<open>b\<close> is only run when \<open>a\<close> is true.\<close>

definition and_e :: "error + bool \<Rightarrow> error + bool \<Rightarrow> error + bool" where
  "and_e a b = bindE a (\<lambda>x. if x then b else Inr False)"

text \<open>\<^verbatim>\<open>for x in xs: if f(x): return True\<close> followed by \<^verbatim>\<open>return False\<close>.\<close>

fun any_e :: "('a \<Rightarrow> error + bool) \<Rightarrow> 'a list \<Rightarrow> error + bool" where
  "any_e f [] = Inr False"
| "any_e f (x # xs) =
     (case f x of Inl e \<Rightarrow> Inl e | Inr h \<Rightarrow> if h then Inr True else any_e f xs)"

text \<open>\<^verbatim>\<open>for x in xs: if f(x): return x\<close> followed by \<^verbatim>\<open>return None\<close>.\<close>

fun first_e :: "('a \<Rightarrow> error + bool) \<Rightarrow> 'a list \<Rightarrow> error + 'a option" where
  "first_e f [] = Inr None"
| "first_e f (x # xs) =
     (case f x of Inl e \<Rightarrow> Inl e | Inr h \<Rightarrow> if h then Inr (Some x) else first_e f xs)"

text \<open>A loop that appends the items \<open>f x\<close> produces, in order, to one result list.\<close>

fun concat_e :: "('a \<Rightarrow> error + 'b list) \<Rightarrow> 'a list \<Rightarrow> error + 'b list" where
  "concat_e f [] = Inr []"
| "concat_e f (x # xs) =
     (case f x of Inl e \<Rightarrow> Inl e
      | Inr ys \<Rightarrow> (case concat_e f xs of Inl e \<Rightarrow> Inl e | Inr zs \<Rightarrow> Inr (ys @ zs)))"

text \<open>A loop that keeps the items for which \<open>f\<close> holds.\<close>

fun filter_e :: "('a \<Rightarrow> error + bool) \<Rightarrow> 'a list \<Rightarrow> error + 'a list" where
  "filter_e f [] = Inr []"
| "filter_e f (x # xs) =
     (case f x of Inl e \<Rightarrow> Inl e
      | Inr k \<Rightarrow> (case filter_e f xs of Inl e \<Rightarrow> Inl e
                 | Inr zs \<Rightarrow> Inr (if k then x # zs else zs)))"

subsection \<open>Characters\<close>

definition ord :: "char \<Rightarrow> int" where
  "ord c = int (of_char c)"

definition py_chr :: "int \<Rightarrow> error + char" where
  \<comment> \<open>code points above 255 have no \<^typ>\<open>char\<close>; the board code only reaches
      \<^verbatim>\<open>chr\<close> with \<^verbatim>\<open>ord('a')\<close> plus a column index\<close>
  "py_chr n = (if 0 \<le> n \<and> n < 256 then Inr (char_of (nat n)) else Inl ValueError)"

definition isupper :: "char \<Rightarrow> bool" where
  "isupper c \<longleftrightarrow> 65 \<le> ord c \<and> ord c \<le> 90"

definition islower :: "char \<Rightarrow> bool" where
  "islower c \<longleftrightarrow> 97 \<le> ord c \<and> ord c \<le> 122"

definition isdigit :: "char \<Rightarrow> bool" where
  "isdigit c \<longleftrightarrow> 48 \<le> ord c \<and> ord c \<le> 57"

definition isspace :: "char \<Rightarrow> bool" where
  "isspace c \<longleftrightarrow> (9 \<le> ord c \<and> ord c \<le> 13) \<or> (28 \<le> ord c \<and> ord c \<le> 32)"

definition lower :: "char \<Rightarrow> char" where
  "lower c = (if isupper c then char_of (nat (ord c + 32)) else c)"

definition upper :: "char \<Rightarrow> char" where
  "upper c = (if islower c then char_of (nat (ord c - 32)) else c)"

text \<open>\<^verbatim>\<open>int(c)\<close> for a one-character string.\<close>

definition int_of_char :: "char \<Rightarrow> error + int" where
  "int_of_char c = (if isdigit c then Inr (ord c - 48) else Inl ValueError)"

subsection \<open>Integers as text\<close>

function str_nat :: "nat \<Rightarrow> string" where
  "str_nat n = (if n < 10 then [char_of (48 + n)]
                else str_nat (n div 10) @ [char_of (48 + n mod 10)])"
  by pat_completeness auto
termination
  by (relation "measure id") auto

declare str_nat.simps [simp del]

definition py_str :: "int \<Rightarrow> string" where
  "py_str i = (if i < 0 then CHR ''-'' # str_nat (nat (- i)) else str_nat (nat i))"

text \<open>
  \<^verbatim>\<open>int(s)\<close>: surrounding whitespace is dropped, one sign is allowed, and the digits may
  be grouped by single underscores.
\<close>

fun digits_ok :: "string \<Rightarrow> bool" where
  "digits_ok [] = False"
| "digits_ok [c] = isdigit c"
| "digits_ok (c # d # cs) =
     (isdigit c \<and> (if d = CHR ''_'' then digits_ok cs else digits_ok (d # cs)))"

definition digits_val :: "string \<Rightarrow> int" where
  "digits_val ds = foldl (\<lambda>a c. 10 * a + (ord c - 48)) 0 (filter (\<lambda>c. c \<noteq> CHR ''_'') ds)"

definition strip :: "string \<Rightarrow> string" where
  "strip s = rev (dropWhile isspace (rev (dropWhile isspace s)))"

definition py_int :: "string \<Rightarrow> error + int" where
  "py_int s =
    (let t = strip s;
         neg = (t \<noteq> [] \<and> hd t = CHR ''-'');
         body = (if t \<noteq> [] \<and> (hd t = CHR ''-'' \<or> hd t = CHR ''+'') then tl t else t)
     in if digits_ok body then Inr (if neg then - digits_val body else digits_val body)
        else Inl ValueError)"

subsection \<open>Splitting and joining\<close>

text \<open>\<^verbatim>\<open>s.split()\<close>: the maximal runs of non-whitespace characters.\<close>

fun split_ws :: "string \<Rightarrow> string \<Rightarrow> string list" where
  "split_ws [] cur = (if cur = [] then [] else [cur])"
| "split_ws (c # cs) cur =
     (if isspace c then (if cur = [] then split_ws cs [] else cur # split_ws cs [])
      else split_ws cs (cur @ [c]))"

definition py_split :: "string \<Rightarrow> string list" where
  "py_split s = split_ws s []"

text \<open>\<^verbatim>\<open>s.split(sep)\<close> for a one-character separator: empty pieces are kept.\<close>

fun split_at :: "char \<Rightarrow> string \<Rightarrow> string \<Rightarrow> string list" where
  "split_at sep [] cur = [cur]"
| "split_at sep (c # cs) cur =
     (if c = sep then cur # split_at sep cs [] else split_at sep cs (cur @ [c]))"

definition py_split_on :: "char \<Rightarrow> string \<Rightarrow> string list" where
  "py_split_on sep s = split_at sep s []"

fun py_join :: "string \<Rightarrow> string list \<Rightarrow> string" where
  "py_join sep [] = []"
| "py_join sep [x] = x"
| "py_join sep (x # y # ys) = x @ sep @ py_join sep (y # ys)"

subsection \<open>List indexing\<close>

text \<open>
  \<^verbatim>\<open>xs[i]\<close> and \<^verbatim>\<open>xs[i] = v\<close>: a negative index counts from the end, and an index
  outside the list raises \<^verbatim>\<open>IndexError\<close>.
\<close>

fun nth_from :: "'a list \<Rightarrow> int \<Rightarrow> error + 'a" where
  "nth_from [] i = Inl IndexError"
| "nth_from (x # xs) i = (if i = 0 then Inr x else nth_from xs (i - 1))"

definition py_get :: "'a list \<Rightarrow> int \<Rightarrow> error + 'a" where
  "py_get xs i = (if i < 0 then nth_from xs (i + int (length xs)) else nth_from xs i)"

fun set_from :: "'a list \<Rightarrow> int \<Rightarrow> 'a \<Rightarrow> error + 'a list" where
  "set_from [] i v = Inl IndexError"
| "set_from (x # xs) i v =
     (if i = 0 then Inr (v # xs)
      else (case set_from xs (i - 1) v of Inl e \<Rightarrow> Inl e | Inr ys \<Rightarrow> Inr (x # ys)))"

definition py_set :: "'a list \<Rightarrow> int \<Rightarrow> 'a \<Rightarrow> error + 'a list" where
  "py_set xs i v = (if i < 0 then set_from xs (i + int (length xs)) v else set_from xs i v)"

section \<open>The position (class \<^verbatim>\<open>Board\<close>)\<close>

text \<open>
  A board is a list of rows of one-character cells, row 0 being rank 8; \<^verbatim>\<open>'.'\<close> is an
  empty square, an upper-case letter a white piece and a lower-case letter a black one.
  A move is the tuple \<^verbatim>\<open>(fr, fc, tr, tc, promo)\<close>.
\<close>

type_synonym grid = "char list list"
type_synonym move = "int \<times> int \<times> int \<times> int \<times> char option"

record position =
  board :: grid
  turn :: string
  castling :: string
  ep :: string
  halfmove :: int
  fullmove :: int
  move_history :: "(string \<times> string \<times> string) list"
  pos_history :: "string \<rightharpoonup> int"
  cap_white :: "char list"
  cap_black :: "char list"
  material_cache :: "(int \<times> int) option"

definition START_FEN :: string where
  "START_FEN = ''rnbqkbnr/pppppppp/8/8/8/8/PPPPPPPP/RNBQKBNR w KQkq - 0 1''"

definition ROOK_D :: "(int \<times> int) list" where
  "ROOK_D = [(1, 0), (-1, 0), (0, 1), (0, -1)]"

definition BISHOP_D :: "(int \<times> int) list" where
  "BISHOP_D = [(1, 1), (1, -1), (-1, 1), (-1, -1)]"

definition QUEEN_D :: "(int \<times> int) list" where
  "QUEEN_D = ROOK_D @ BISHOP_D"

definition KNIGHT_D :: "(int \<times> int) list" where
  "KNIGHT_D = [(2, 1), (2, -1), (-2, 1), (-2, -1), (1, 2), (1, -2), (-1, 2), (-1, -2)]"

definition KING_D :: "(int \<times> int) list" where
  "KING_D = ROOK_D @ BISHOP_D"

definition valid :: "int \<Rightarrow> int \<Rightarrow> bool" where
  "valid r c \<longleftrightarrow> 0 \<le> r \<and> r < 8 \<and> 0 \<le> c \<and> c < 8"

definition range8 :: "int list" where
  "range8 = [0, 1, 2, 3, 4, 5, 6, 7]"

text \<open>\<^verbatim>\<open>self.board[r][c]\<close> and \<^verbatim>\<open>self.board[r][c] = v\<close>.\<close>

definition cell :: "grid \<Rightarrow> int \<Rightarrow> int \<Rightarrow> error + char" where
  "cell b r c = bindE (py_get b r) (\<lambda>row. py_get row c)"

definition set_cell :: "grid \<Rightarrow> int \<Rightarrow> int \<Rightarrow> char \<Rightarrow> error + grid" where
  "set_cell b r c v =
     bindE (py_get b r) (\<lambda>row. bindE (py_set row c v) (\<lambda>row'. py_set b r row'))"

subsection \<open>Serialisation\<close>

text \<open>The inner loop of \<^verbatim>\<open>to_fen\<close>: \<open>e\<close> counts the empty squares not yet written.\<close>

fun fen_row :: "char list \<Rightarrow> int \<Rightarrow> string \<Rightarrow> string" where
  "fen_row [] e s = (if e \<noteq> 0 then s @ py_str e else s)"
| "fen_row (x # xs) e s =
     (if x = CHR ''.'' then fen_row xs (e + 1) s
      else fen_row xs 0 ((if e \<noteq> 0 then s @ py_str e else s) @ [x]))"

definition to_fen :: "position \<Rightarrow> string" where
  "to_fen s =
    (let rows = map (\<lambda>row. fen_row row 0 []) (board s);
         c = (if castling s \<noteq> [] then castling s else ''-'')
     in py_join ''/'' rows @ '' '' @ turn s @ '' '' @ c @ '' '' @ ep s @ '' ''
          @ py_str (halfmove s) @ '' '' @ py_str (fullmove s))"

definition pos_key :: "position \<Rightarrow> string" where
  "pos_key s = py_join '' '' (take 4 (py_split (to_fen s)))"

text \<open>The inner loop of \<^verbatim>\<open>_load_fen\<close>, for one \<^verbatim>\<open>/\<close>-separated piece.\<close>

fun load_row :: "string \<Rightarrow> error + char list" where
  "load_row [] = Inr []"
| "load_row (ch # cs) =
     bindE (if isdigit ch then bindE (int_of_char ch) (\<lambda>n. Inr (replicate (nat n) (CHR ''.'')))
            else Inr [ch])
       (\<lambda>xs. bindE (load_row cs) (\<lambda>ys. Inr (xs @ ys)))"

fun load_rows :: "string list \<Rightarrow> error + grid" where
  "load_rows [] = Inr []"
| "load_rows (r # rs) =
     bindE (load_row r) (\<lambda>row. bindE (load_rows rs) (\<lambda>rows. Inr (row # rows)))"

text \<open>
  \<^verbatim>\<open>_load_fen\<close> assigns the six serialised fields of \<^verbatim>\<open>self\<close> and the material
  cache, and nothing else. \<open>Inl\<close> is an exception; the object it leaves behind is not
  modelled.
\<close>

definition load_fen :: "position \<Rightarrow> string \<Rightarrow> error + position" where
  "load_fen s fen =
    (let parts = py_split fen in
     bindE (py_get parts 0) (\<lambda>p0.
     bindE (load_rows (py_split_on (CHR ''/'') p0)) (\<lambda>b.
     bindE (if length parts > 4 then bindE (py_get parts 4) py_int else Inr 0) (\<lambda>hm.
     bindE (if length parts > 5 then bindE (py_get parts 5) py_int else Inr 1) (\<lambda>fm.
       Inr (s\<lparr>board := b,
              turn := (if length parts > 1 then parts ! 1 else ''w''),
              castling := (if length parts > 2 then parts ! 2 else ''-''),
              ep := (if length parts > 3 then parts ! 3 else ''-''),
              halfmove := hm,
              fullmove := fm,
              material_cache := None\<rparr>))))))"

text \<open>\<^verbatim>\<open>Board()\<close>: the constructor sets every field and then loads \<^verbatim>\<open>START_FEN\<close>.\<close>

definition new_board :: "error + position" where
  "new_board =
     load_fen \<lparr>board = [], turn = ''w'', castling = ''KQkq'', ep = ''-'', halfmove = 0,
               fullmove = 1, move_history = [], pos_history = Map.empty, cap_white = [],
               cap_black = [], material_cache = None\<rparr> START_FEN"

subsection \<open>Colours, king search and attacks\<close>

definition is_w :: "char \<Rightarrow> bool" where
  "is_w p \<longleftrightarrow> p \<noteq> CHR ''.'' \<and> isupper p"

definition is_b :: "char \<Rightarrow> bool" where
  "is_b p \<longleftrightarrow> p \<noteq> CHR ''.'' \<and> islower p"

definition same :: "char \<Rightarrow> char \<Rightarrow> bool" where
  "same p1 p2 \<longleftrightarrow> (is_w p1 \<and> is_w p2) \<or> (is_b p1 \<and> is_b p2)"

definition enemy :: "char \<Rightarrow> string \<Rightarrow> bool" where
  "enemy p t = (if t = ''w'' then is_b p else is_w p)"

text \<open>The squares in the order of \<^verbatim>\<open>for r in range(8): for c in range(8)\<close>.\<close>

definition squares :: "(int \<times> int) list" where
  "squares = concat (map (\<lambda>r. map (\<lambda>c. (r, c)) range8) range8)"

definition find_king :: "position \<Rightarrow> string \<Rightarrow> error + (int \<times> int) option" where
  "find_king s t =
    (let k = (if t = ''w'' then CHR ''K'' else CHR ''k'') in
     first_e (\<lambda>(r, c). bindE (cell (board s) r c) (\<lambda>p. Inr (p = k))) squares)"

text \<open>
  The \<^verbatim>\<open>while valid(nr,nc)\<close> walk of \<^verbatim>\<open>is_attacked\<close> along one direction: the first
  occupied square decides.
\<close>

function scan_ray :: "grid \<Rightarrow> (char \<Rightarrow> bool) \<Rightarrow> int \<Rightarrow> int \<Rightarrow> int \<Rightarrow> int \<Rightarrow> error + bool" where
  "scan_ray b hit nr nc dr dc =
     (if valid nr nc then
        (case cell b nr nc of
           Inl e \<Rightarrow> Inl e
         | Inr p \<Rightarrow>
             if p \<noteq> CHR ''.'' then Inr (hit p)
             else if dr = 0 \<and> dc = 0 then Inl NoProgress
             else scan_ray b hit (nr + dr) (nc + dc) dr dc)
      else Inr False)"
  by pat_completeness auto
termination
  by (relation "measure (\<lambda>(b, hit, nr, nc, dr, dc).
        if dr > 0 then nat (8 - nr) else if dr < 0 then nat (nr + 1)
        else if dc > 0 then nat (8 - nc) else nat (nc + 1))")
     (auto simp: valid_def)

declare scan_ray.simps [simp del]

definition is_attacked :: "position \<Rightarrow> int \<Rightarrow> int \<Rightarrow> string \<Rightarrow> error + bool" where
  "is_attacked s r c by =
    (let has = (\<lambda>p. if by = ''w'' then is_w p else is_b p);
         step = (\<lambda>ch (dr, dc).
                   if valid (r + dr) (c + dc)
                   then bindE (cell (board s) (r + dr) (c + dc)) (\<lambda>p. Inr (lower p = ch \<and> has p))
                   else Inr False)
     in bindE (any_e (step (CHR ''n'')) KNIGHT_D) (\<lambda>h1. if h1 then Inr True else
        bindE (any_e (\<lambda>(dirs, chars). any_e (\<lambda>(dr, dc).
                  scan_ray (board s) (\<lambda>p. lower p \<in> set chars \<and> has p) (r + dr) (c + dc) dr dc) dirs)
                [(ROOK_D, ''qr''), (BISHOP_D, ''qb'')]) (\<lambda>h2. if h2 then Inr True else
        bindE (any_e (step (CHR ''k'')) KING_D) (\<lambda>h3. if h3 then Inr True else
        any_e (step (CHR ''p''))
          (if by = ''w'' then [(1, -1), (1, 1)] else [(-1, -1), (-1, 1)])))))"

text \<open>\<^verbatim>\<open>turn or self.turn\<close>: \<^verbatim>\<open>None\<close> and the empty string select \<^verbatim>\<open>self.turn\<close>.\<close>

definition turn_or :: "string option \<Rightarrow> position \<Rightarrow> string" where
  "turn_or targ s = (case targ of None \<Rightarrow> turn s | Some t \<Rightarrow> if t = [] then turn s else t)"

definition in_check :: "position \<Rightarrow> string option \<Rightarrow> error + bool" where
  "in_check s targ =
    (let t = turn_or targ s in
     bindE (find_king s t) (\<lambda>k.
       case k of
         None \<Rightarrow> Inr False
       | Some (kr, kc) \<Rightarrow> is_attacked s kr kc (if t = ''w'' then ''b'' else ''w'')))"

subsection \<open>Pseudo-legal moves\<close>

text \<open>\<^verbatim>\<open>self.ep\<close> read as a square: the rank first, the file only when the rank matches.\<close>

definition is_ep_square :: "string \<Rightarrow> int \<Rightarrow> int \<Rightarrow> error + bool" where
  "is_ep_square e nr nc =
    (if e \<noteq> ''-'' then
       bindE (py_get e 1) (\<lambda>e1. bindE (int_of_char e1) (\<lambda>d.
         if nr = 8 - d then bindE (py_get e 0) (\<lambda>e0. Inr (nc = ord e0 - ord (CHR ''a'')))
         else Inr False))
     else Inr False)"

definition promotions :: "int \<Rightarrow> int \<Rightarrow> int \<Rightarrow> int \<Rightarrow> move list" where
  "promotions r c nr nc = map (\<lambda>pp. (r, c, nr, nc, Some pp)) ''qrbn''"

definition pawn_moves :: "position \<Rightarrow> string \<Rightarrow> int \<Rightarrow> int \<Rightarrow> error + move list" where
  "pawn_moves s t r c =
    (let fwd = (if t = ''w'' then -1 else 1);
         start_r = (if t = ''w'' then 6 else 1);
         promo_r = (if t = ''w'' then 0 else 7);
         nr = r + fwd
     in bindE (if valid nr c then
                 bindE (cell (board s) nr c) (\<lambda>q.
                   if q = CHR ''.'' then
                     (if nr = promo_r then Inr (promotions r c nr c)
                      else if r = start_r then
                        bindE (cell (board s) (r + 2 * fwd) c) (\<lambda>q2.
                          Inr ((r, c, nr, c, None)
                               # (if q2 = CHR ''.'' then [(r, c, r + 2 * fwd, c, None)] else [])))
                      else Inr [(r, c, nr, c, None)])
                   else Inr [])
               else Inr [])
         (\<lambda>adv. bindE (concat_e (\<lambda>dc.
               if valid nr (c + dc) then
                 bindE (cell (board s) nr (c + dc)) (\<lambda>tgt.
                 bindE (is_ep_square (ep s) nr (c + dc)) (\<lambda>is_ep.
                   if enemy tgt t \<or> is_ep then
                     (if nr = promo_r then Inr (promotions r c nr (c + dc))
                      else Inr [(r, c, nr, c + dc, None)])
                   else Inr []))
               else Inr []) [-1, 1])
         (\<lambda>caps. Inr (adv @ caps))))"

text \<open>Knight and king steps: every table offset that stays on the board and does not land
  on a piece of the mover's colour.\<close>

definition step_moves :: "grid \<Rightarrow> char \<Rightarrow> int \<Rightarrow> int \<Rightarrow> (int \<times> int) list \<Rightarrow> error + move list" where
  "step_moves b piece r c ds =
     concat_e (\<lambda>(dr, dc).
        if valid (r + dr) (c + dc)
        then bindE (cell b (r + dr) (c + dc)) (\<lambda>q.
               Inr (if \<not> same piece q then [(r, c, r + dr, c + dc, None)] else []))
        else Inr []) ds"

text \<open>The \<^verbatim>\<open>while valid(nr,nc)\<close> walk of a bishop, rook or queen along one direction.\<close>

function slide :: "grid \<Rightarrow> string \<Rightarrow> int \<Rightarrow> int \<Rightarrow> int \<Rightarrow> int \<Rightarrow> int \<Rightarrow> int \<Rightarrow> error + move list" where
  "slide b t r c nr nc dr dc =
     (if valid nr nc then
        (case cell b nr nc of
           Inl e \<Rightarrow> Inl e
         | Inr t2 \<Rightarrow>
             if t2 = CHR ''.'' then
               (if dr = 0 \<and> dc = 0 then Inl NoProgress
                else (case slide b t r c (nr + dr) (nc + dc) dr dc of
                        Inl e \<Rightarrow> Inl e
                      | Inr ms \<Rightarrow> Inr ((r, c, nr, nc, None) # ms)))
             else if enemy t2 t then Inr [(r, c, nr, nc, None)]
             else Inr [])
      else Inr [])"
  by pat_completeness auto
termination
  by (relation "measure (\<lambda>(b, t, r, c, nr, nc, dr, dc).
        if dr > 0 then nat (8 - nr) else if dr < 0 then nat (nr + 1)
        else if dc > 0 then nat (8 - nc) else nat (nc + 1))")
     (auto simp: valid_def)

declare slide.simps [simp del]

text \<open>The two castling tests of the king branch, each a chain of \<^verbatim>\<open>and\<close>.\<close>

definition castle_moves :: "position \<Rightarrow> string \<Rightarrow> int \<Rightarrow> int \<Rightarrow> error + move list" where
  "castle_moves s t r c =
    (let opp = (if t = ''w'' then ''b'' else ''w'');
         kr = (if t = ''w'' then 7 else 0);
         kc = 4
     in bindE (and_e (Inr (r = kr \<and> c = kc))
                 (bindE (is_attacked s kr kc opp) (\<lambda>a. Inr (\<not> a)))) (\<lambda>home.
        if home then
          (let ks = (if t = ''w'' then CHR ''K'' else CHR ''k'');
               qs = (if t = ''w'' then CHR ''Q'' else CHR ''q'');
               rp = (if t = ''w'' then CHR ''R'' else CHR ''r'');
               cas = castling s;
               is_at = (\<lambda>cc x. bindE (cell (board s) kr cc) (\<lambda>q. Inr (q = x)));
               safe = (\<lambda>cc. bindE (is_attacked s kr cc opp) (\<lambda>a. Inr (\<not> a)))
           in bindE (and_e (Inr (ks \<in> set cas)) (and_e (is_at 5 (CHR ''.''))
                    (and_e (is_at 6 (CHR ''.'')) (and_e (is_at 7 rp)
                    (and_e (safe 5) (safe 6)))))) (\<lambda>k_side.
              bindE (and_e (Inr (qs \<in> set cas)) (and_e (is_at 3 (CHR ''.''))
                    (and_e (is_at 2 (CHR ''.'')) (and_e (is_at 1 (CHR ''.''))
                    (and_e (is_at 0 rp) (and_e (safe 3) (safe 2))))))) (\<lambda>q_side.
              Inr ((if k_side then [(r, c, kr, kc + 2, None)] else [])
                   @ (if q_side then [(r, c, kr, kc - 2, None)] else [])))))
        else Inr []))"

definition pseudo :: "position \<Rightarrow> int \<Rightarrow> int \<Rightarrow> error + move list" where
  "pseudo s r c =
     bindE (cell (board s) r c) (\<lambda>piece.
       if piece = CHR ''.'' then Inr []
       else
         (let p = lower piece;
              t = (if isupper piece then ''w'' else ''b'')
          in if p = CHR ''p'' then pawn_moves s t r c
             else if p = CHR ''n'' then step_moves (board s) piece r c KNIGHT_D
             else if p = CHR ''b'' \<or> p = CHR ''r'' \<or> p = CHR ''q'' then
               concat_e (\<lambda>(dr, dc). slide (board s) t r c (r + dr) (c + dc) dr dc)
                 (if p = CHR ''b'' then BISHOP_D else if p = CHR ''r'' then ROOK_D else QUEEN_D)
             else if p = CHR ''k'' then
               bindE (step_moves (board s) piece r c KING_D) (\<lambda>mv.
               bindE (castle_moves s t r c) (\<lambda>cm. Inr (mv @ cm)))
             else Inr []))"

subsection \<open>Applying a move to a copy\<close>

text \<open>One of the two loops over \<^verbatim>\<open>pairs\<close>: a rook home square \<open>(r, c)\<close> loses its flag.\<close>

definition remove_flags :: "int \<Rightarrow> int \<Rightarrow> string \<Rightarrow> string" where
  "remove_flags r c cas =
     fold (\<lambda>(rr, rc, flag) cs. if r = rr \<and> c = rc \<and> flag \<in> set cs then remove1 flag cs else cs)
       [(7, 7, CHR ''K''), (7, 0, CHR ''Q''), (0, 7, CHR ''k''), (0, 0, CHR ''q'')] cas"

text \<open>
  \<^verbatim>\<open>_apply_raw\<close> builds a new \<^verbatim>\<open>Board\<close> with empty histories and returns it; \<^verbatim>\<open>self\<close>
  is not changed.
\<close>

definition apply_raw :: "position \<Rightarrow> move \<Rightarrow> error + position" where
  "apply_raw s m = (case m of (fr, fc, tr, tc, promo) \<Rightarrow>
     bindE (cell (board s) fr fc) (\<lambda>piece.
     bindE (cell (board s) tr tc) (\<lambda>target.
     let p = lower piece; t = turn s in
     bindE (if p = CHR ''p'' \<and> ep s \<noteq> ''-'' then
              bindE (py_get (ep s) 0) (\<lambda>e0. bindE (py_get (ep s) 1) (\<lambda>e1.
              bindE (int_of_char e1) (\<lambda>d.
                if tr = 8 - d \<and> tc = ord e0 - ord (CHR ''a'')
                then set_cell (board s) fr (ord e0 - ord (CHR ''a'')) (CHR ''.'')
                else Inr (board s))))
            else Inr (board s)) (\<lambda>b1.
     bindE (if p = CHR ''k'' then
              (if fc = 4 \<and> tc = 6 then
                 bindE (set_cell b1 fr 7 (CHR ''.'')) (\<lambda>b.
                   set_cell b fr 5 (if t = ''w'' then CHR ''R'' else CHR ''r''))
               else if fc = 4 \<and> tc = 2 then
                 bindE (set_cell b1 fr 0 (CHR ''.'')) (\<lambda>b.
                   set_cell b fr 3 (if t = ''w'' then CHR ''R'' else CHR ''r''))
               else Inr b1)
            else Inr b1) (\<lambda>b2.
     bindE (set_cell b2 tr tc piece) (\<lambda>b3.
     bindE (set_cell b3 fr fc (CHR ''.'')) (\<lambda>b4.
     bindE (case promo of
              Some pr \<Rightarrow> set_cell b4 tr tc (if t = ''w'' then upper pr else lower pr)
            | None \<Rightarrow> if p = CHR ''p'' \<and> (tr = 0 \<or> tr = 7)
                       then set_cell b4 tr tc (if t = ''w'' then CHR ''Q'' else CHR ''q'')
                       else Inr b4) (\<lambda>b5.
     bindE (if p = CHR ''p'' \<and> \<bar>fr - tr\<bar> = 2 then
              bindE (py_chr (ord (CHR ''a'') + fc)) (\<lambda>f. Inr (f # py_str (8 - (fr + tr) div 2)))
            else Inr ''-'') (\<lambda>ep'.
     let cas0 = filter (\<lambda>x. x \<noteq> CHR ''-'') (castling s);
         cas1 = (if p = CHR ''k''
                 then filter (\<lambda>x. x \<notin> set (if t = ''w'' then ''KQ'' else ''kq'')) cas0 else cas0);
         cas2 = (if p = CHR ''r'' then remove_flags fr fc cas1 else cas1);
         cas3 = remove_flags tr tc cas2;
         castling' = (if cas3 = [] then ''-'' else cas3);
         halfmove' = (if p = CHR ''p'' \<or> target \<noteq> CHR ''.'' then 0 else halfmove s + 1);
         fullmove' = (if t = ''b'' then fullmove s + 1 else fullmove s);
         turn' = (if t = ''w'' then ''b'' else ''w'')
     in Inr \<lparr>board = b5, turn = turn', castling = castling', ep = ep',
              halfmove = halfmove', fullmove = fullmove', move_history = [],
              pos_history = Map.empty, cap_white = [], cap_black = [],
              material_cache = None\<rparr>)))))))))"

subsection \<open>Legal moves\<close>

text \<open>The test of \<^verbatim>\<open>legal_moves\<close> on one pseudo-legal move: simulate, then look for check.\<close>

definition keeps_king_safe :: "position \<Rightarrow> string \<Rightarrow> move \<Rightarrow> error + bool" where
  "keeps_king_safe s t mv =
     bindE (apply_raw s mv) (\<lambda>b2. bindE (in_check b2 (Some t)) (\<lambda>chk. Inr (\<not> chk)))"

definition legal_moves :: "position \<Rightarrow> string option \<Rightarrow> error + move list" where
  "legal_moves s targ =
    (let t = turn_or targ s in
     concat_e (\<lambda>r. concat_e (\<lambda>c.
        bindE (cell (board s) r c) (\<lambda>p.
          if p = CHR ''.'' then Inr []
          else if (t = ''w'') \<noteq> isupper p then Inr []
          else bindE (pseudo s r c) (filter_e (keeps_king_safe s t)))) range8) range8)"

subsection \<open>Algebraic notation\<close>

definition square_name :: "int \<Rightarrow> int \<Rightarrow> error + string" where
  \<comment> \<open>\<^verbatim>\<open>f"{chr(ord('a')+c)}{8-r}"\<close>\<close>
  "square_name r c = bindE (py_chr (ord (CHR ''a'') + c)) (\<lambda>f. Inr (f # py_str (8 - r)))"

definition promo_suffix :: "char option \<Rightarrow> string" where
  "promo_suffix promo = (case promo of None \<Rightarrow> [] | Some pr \<Rightarrow> [CHR ''='', upper pr])"

text \<open>The list comprehension \<^verbatim>\<open>ambig\<close> of \<^verbatim>\<open>_build_san\<close>.\<close>

definition ambiguous :: "grid \<Rightarrow> char \<Rightarrow> move \<Rightarrow> move list \<Rightarrow> error + move list" where
  "ambiguous b p mv legal = (case mv of (fr, fc, tr, tc, promo) \<Rightarrow>
     filter_e (\<lambda>(mr, mc, mtr, mtc, mp).
        if mtr = tr \<and> mtc = tc \<and> mp = promo
        then bindE (cell b mr mc) (\<lambda>q. Inr (lower q = p \<and> \<not> (mr = fr \<and> mc = fc)))
        else Inr False) legal)"

definition build_san :: "position \<Rightarrow> move \<Rightarrow> move list \<Rightarrow> error + string" where
  "build_san s mv legal = (case mv of (fr, fc, tr, tc, promo) \<Rightarrow>
     bindE (cell (board s) fr fc) (\<lambda>piece.
     bindE (cell (board s) tr tc) (\<lambda>target.
     let p = lower piece in
     bindE (if target \<noteq> CHR ''.'' then Inr True
            else if p = CHR ''p'' \<and> ep s \<noteq> ''-'' then
              bindE (py_get (ep s) 0) (\<lambda>e0.
                if tc = ord e0 - ord (CHR ''a'')
                then bindE (py_get (ep s) 1) (\<lambda>e1. bindE (int_of_char e1) (\<lambda>d. Inr (tr = 8 - d)))
                else Inr False)
            else Inr False) (\<lambda>is_cap.
     if p = CHR ''k'' \<and> fc = 4 \<and> tc = 6 then Inr ''O-O''
     else if p = CHR ''k'' \<and> fc = 4 \<and> tc = 2 then Inr ''O-O-O''
     else
       bindE (square_name tr tc) (\<lambda>to_sq.
       if p = CHR ''p'' then
         bindE (if is_cap then bindE (py_chr (ord (CHR ''a'') + fc)) (\<lambda>f. Inr (f # CHR ''x'' # to_sq))
                else Inr to_sq) (\<lambda>san. Inr (san @ promo_suffix promo))
       else
         bindE (ambiguous (board s) p mv legal) (\<lambda>ambig.
         bindE (if ambig \<noteq> [] then
                  (let sf = (\<exists>m \<in> set ambig. fst (snd m) = fc);
                       sr = (\<exists>m \<in> set ambig. fst m = fr)
                   in if \<not> sf then bindE (py_chr (ord (CHR ''a'') + fc)) (\<lambda>f. Inr [f])
                      else if \<not> sr then Inr (py_str (8 - fr))
                      else bindE (py_chr (ord (CHR ''a'') + fc)) (\<lambda>f. Inr (f # py_str (8 - fr))))
                else Inr []) (\<lambda>dis.
           Inr ([upper p] @ dis @ (if is_cap then ''x'' else []) @ to_sq
                @ promo_suffix promo))))))))"

subsection \<open>Applying a move in long-form notation\<close>

text \<open>
  \<^verbatim>\<open>apply_uci\<close> changes \<^verbatim>\<open>self\<close>, so the model returns the object after the call next to
  the outcome: \<open>Inl\<close> for the exception raised, \<open>Inr (san, cap)\<close> for the returned pair.
  Everything up to and including \<^verbatim>\<open>_apply_raw\<close> only reads \<^verbatim>\<open>self\<close>; the first
  assignment is \<^verbatim>\<open>self.board = new.board\<close>.
\<close>

definition parse_uci :: "string \<Rightarrow> error + move" where
  "parse_uci uci =
    (if length uci < 4 then Inl (Bad_UCI uci)
     else bindE (int_of_char (uci ! 1)) (\<lambda>d1.
          bindE (int_of_char (uci ! 3)) (\<lambda>d3.
            Inr (8 - d1, ord (uci ! 0) - ord (CHR ''a''), 8 - d3, ord (uci ! 2) - ord (CHR ''a''),
                 if length uci > 4 then Some (lower (uci ! 4)) else None))))"

text \<open>The membership test with its fallback: a move without a promotion letter that is
  legal only as a promotion is played as a queen promotion.\<close>

definition choose_move :: "string \<Rightarrow> move \<Rightarrow> move list \<Rightarrow> error + move" where
  "choose_move uci mv legal = (case mv of (fr, fc, tr, tc, promo) \<Rightarrow>
     if mv \<notin> set legal then
       (if promo = None \<and> (fr, fc, tr, tc, Some (CHR ''q'')) \<in> set legal
        then Inr (fr, fc, tr, tc, Some (CHR ''q''))
        else Inl (Illegal_move uci))
     else Inr mv)"

text \<open>The value \<^verbatim>\<open>cap\<close>: the pawn taken en passant, else the occupant of the destination.\<close>

definition captured :: "position \<Rightarrow> move \<Rightarrow> error + char option" where
  "captured s mv = (case mv of (fr, fc, tr, tc, promo) \<Rightarrow>
     bindE (cell (board s) fr fc) (\<lambda>piece.
     bindE (cell (board s) tr tc) (\<lambda>target.
     bindE (if lower piece = CHR ''p'' \<and> ep s \<noteq> ''-'' then
              bindE (py_get (ep s) 0) (\<lambda>e0. bindE (py_get (ep s) 1) (\<lambda>e1.
              bindE (int_of_char e1) (\<lambda>d.
                if tr = 8 - d \<and> tc = ord e0 - ord (CHR ''a'')
                then bindE (cell (board s) fr (ord e0 - ord (CHR ''a''))) (\<lambda>x. Inr (Some x))
                else Inr None)))
            else Inr None) (\<lambda>ep_removed.
       Inr (case ep_removed of
              Some x \<Rightarrow> Some x
            | None \<Rightarrow> if target \<noteq> CHR ''.'' then Some target else None)))))"

definition install :: "position \<Rightarrow> position \<Rightarrow> position" where
  \<comment> \<open>the six assignments \<^verbatim>\<open>self.board = new.board\<close> ... and the cache reset\<close>
  "install s new = s\<lparr>board := board new, castling := castling new, ep := ep new,
                      halfmove := halfmove new, fullmove := fullmove new, turn := turn new,
                      material_cache := None\<rparr>"

definition record_move :: "position \<Rightarrow> string \<Rightarrow> string \<Rightarrow> char option \<Rightarrow> position" where
  \<comment> \<open>the capture lists, \<^verbatim>\<open>move_history\<close> and \<^verbatim>\<open>pos_history\<close>\<close>
  "record_move s1 uci san cap =
    (let s2 = (case cap of
                 None \<Rightarrow> s1
               | Some x \<Rightarrow>
                   if x \<noteq> CHR ''.'' then
                     (if turn s1 = ''w'' then s1\<lparr>cap_white := cap_white s1 @ [x]\<rparr>
                      else s1\<lparr>cap_black := cap_black s1 @ [x]\<rparr>)
                   else s1);
         s3 = s2\<lparr>move_history := move_history s2 @ [(uci, san, to_fen s2)]\<rparr>;
         pos = pos_key s3
     in s3\<lparr>pos_history := (pos_history s3)
              (pos \<mapsto> (case pos_history s3 pos of None \<Rightarrow> 0 | Some n \<Rightarrow> n) + 1)\<rparr>)"

definition apply_uci :: "position \<Rightarrow> string \<Rightarrow> position \<times> (error + string \<times> char option)" where
  "apply_uci s uci =
    (case bindE (parse_uci uci) (\<lambda>mv0.
          bindE (legal_moves s None) (\<lambda>legal.
          bindE (choose_move uci mv0 legal) (\<lambda>mv.
          bindE (build_san s mv legal) (\<lambda>san.
          bindE (captured s mv) (\<lambda>cap.
          bindE (apply_raw s mv) (\<lambda>new. Inr (san, cap, new))))))) of
       Inl e \<Rightarrow> (s, Inl e)
     | Inr (san, cap, new) \<Rightarrow>
         (let s1 = install s new in
          case bindE (in_check s1 None) (\<lambda>in_chk.
               bindE (legal_moves s1 None) (\<lambda>ms. Inr (in_chk, ms = []))) of
            Inl e \<Rightarrow> (s1, Inl e)
          | Inr (in_chk, no_mvs) \<Rightarrow>
              (let san' = san @ (if in_chk then (if no_mvs then ''#'' else ''+'') else [])
               in (record_move s1 uci san' cap, Inr (san', cap)))))"

subsection \<open>Classifying the position\<close>

text \<open>A loop that threads an accumulator through a list.\<close>

fun fold_e :: "('a \<Rightarrow> 'b \<Rightarrow> error + 'b) \<Rightarrow> 'a list \<Rightarrow> 'b \<Rightarrow> error + 'b" where
  "fold_e f [] acc = Inr acc"
| "fold_e f (x # xs) acc = (case f x acc of Inl e \<Rightarrow> Inl e | Inr acc' \<Rightarrow> fold_e f xs acc')"

text \<open>The lists \<^verbatim>\<open>ws\<close> and \<^verbatim>\<open>bs\<close> of \<^verbatim>\<open>_insufficient\<close>, before the kings are dropped.\<close>

definition material_lists :: "position \<Rightarrow> error + (char list \<times> char list)" where
  "material_lists s =
     fold_e (\<lambda>(r, c) (ws, bs).
        bindE (cell (board s) r c) (\<lambda>p.
          if p = CHR ''.'' then Inr (ws, bs)
          else if isupper p then Inr (ws @ [lower p], bs)
          else Inr (ws, bs @ [lower p]))) squares ([], [])"

definition insufficient :: "position \<Rightarrow> error + bool" where
  "insufficient s =
     bindE (material_lists s) (\<lambda>(ws0, bs0).
       let ws = filter (\<lambda>p. p \<noteq> CHR ''k'') ws0;
           bs = filter (\<lambda>p. p \<noteq> CHR ''k'') bs0
       in if ws = [] \<and> bs = [] then Inr True
          else if ws = [] \<and> (bs = ''b'' \<or> bs = ''n'') then Inr True
          else if bs = [] \<and> (ws = ''b'' \<or> ws = ''n'') then Inr True
          else Inr False)"

text \<open>\<^verbatim>\<open>game_result\<close> returns \<^verbatim>\<open>(is_over, result, reason, winner)\<close>.\<close>

type_synonym verdict = "bool \<times> string \<times> string \<times> string option"

definition game_result :: "position \<Rightarrow> error + verdict" where
  "game_result s =
     bindE (legal_moves s None) (\<lambda>legal.
       if legal = [] then
         bindE (in_check s None) (\<lambda>chk.
           if chk then
             Inr (True, (if turn s = ''w'' then ''0-1'' else ''1-0''), ''Checkmate'',
                  Some (if turn s = ''w'' then ''black'' else ''white''))
           else Inr (True, ''1/2-1/2'', ''Stalemate'', None))
       else if halfmove s \<ge> 100 then Inr (True, ''1/2-1/2'', ''Draw by 50-move rule'', None)
       else if (case pos_history s (pos_key s) of None \<Rightarrow> 0 | Some n \<Rightarrow> n) \<ge> 3
         then Inr (True, ''1/2-1/2'', ''Draw by threefold repetition'', None)
       else bindE (insufficient s) (\<lambda>ins.
         if ins then Inr (True, ''1/2-1/2'', ''Draw by insufficient material'', None)
         else Inr (False, [], [], None)))"

section \<open>Notions used to state the properties\<close>

text \<open>The position that \<^verbatim>\<open>Board()\<close> builds, written out.\<close>

definition start_position :: position where
  "start_position =
     \<lparr>board = [''rnbqkbnr'', ''pppppppp'', ''........'', ''........'',
               ''........'', ''........'', ''PPPPPPPP'', ''RNBQKBNR''],
      turn = ''w'', castling = ''KQkq'', ep = ''-'', halfmove = 0, fullmove = 1,
      move_history = [], pos_history = Map.empty, cap_white = [], cap_black = [],
      material_cache = None\<rparr>"

text \<open>
  Perft counts: \<open>count_moves\<close> is \<^verbatim>\<open>len(b.legal_moves())\<close>, \<open>reply_count\<close> is that
  number on the board \<^verbatim>\<open>_apply_raw\<close> returns for a move (the board whose six fields
  \<^verbatim>\<open>apply_uci\<close> installs), and \<open>perft2\<close> sums the reply counts over the legal moves.
\<close>

definition count_moves :: "position \<Rightarrow> error + int" where
  "count_moves s = bindE (legal_moves s None) (\<lambda>ms. Inr (int (length ms)))"

definition reply_count :: "position \<Rightarrow> move \<Rightarrow> error + int" where
  "reply_count s m = bindE (apply_raw s m) count_moves"

fun sum_e :: "('a \<Rightarrow> error + int) \<Rightarrow> 'a list \<Rightarrow> error + int" where
  "sum_e f [] = Inr 0"
| "sum_e f (x # xs) = bindE (f x) (\<lambda>n. bindE (sum_e f xs) (\<lambda>k. Inr (n + k)))"

definition perft2 :: "position \<Rightarrow> error + int" where
  "perft2 s = bindE (legal_moves s None) (sum_e (reply_count s))"

section \<open>Basic facts about the exception monad\<close>

lemma bindE_simps [simp]: "bindE (Inl e) f = Inl e" "bindE (Inr x) f = f x"
  by (simp_all add: bindE_def)

lemma and_e_simps [simp]:
  "and_e (Inl e) b = Inl e" "and_e (Inr True) b = b" "and_e (Inr False) b = Inr False"
  by (simp_all add: and_e_def)

lemma ord_Char:
  "ord (Char b0 b1 b2 b3 b4 b5 b6 b7) =
    of_bool b0 + 2 * (of_bool b1 + 2 * (of_bool b2 + 2 * (of_bool b3 + 2 * (of_bool b4
      + 2 * (of_bool b5 + 2 * (of_bool b6 + 2 * of_bool b7))))))"
  by (simp add: ord_def)

section \<open>Evaluating the rules on concrete boards\<close>

text \<open>
  Concrete positions are evaluated by rewriting with the defining equations. The tables
  below give the character functions on the thirteen cell values, and the list accesses on
  rows and boards of eight entries, in one step each; the congruence rules make the
  rewriting follow the order of evaluation of the program and keep it from re-traversing
  the board.
\<close>

lemma isupper_tab:
  "isupper (CHR ''.'') = False" "isupper (CHR ''P'') = True" "isupper (CHR ''N'') = True"
  "isupper (CHR ''B'') = True" "isupper (CHR ''R'') = True" "isupper (CHR ''Q'') = True"
  "isupper (CHR ''K'') = True" "isupper (CHR ''p'') = False" "isupper (CHR ''n'') = False"
  "isupper (CHR ''b'') = False" "isupper (CHR ''r'') = False" "isupper (CHR ''q'') = False"
  "isupper (CHR ''k'') = False"
  by (simp_all add: isupper_def ord_Char)

lemma islower_tab:
  "islower (CHR ''.'') = False" "islower (CHR ''P'') = False" "islower (CHR ''N'') = False"
  "islower (CHR ''B'') = False" "islower (CHR ''R'') = False" "islower (CHR ''Q'') = False"
  "islower (CHR ''K'') = False" "islower (CHR ''p'') = True" "islower (CHR ''n'') = True"
  "islower (CHR ''b'') = True" "islower (CHR ''r'') = True" "islower (CHR ''q'') = True"
  "islower (CHR ''k'') = True"
  by (simp_all add: islower_def ord_Char)

lemma lower_tab:
  "lower (CHR ''.'') = CHR ''.''" "lower (CHR ''P'') = CHR ''p''" "lower (CHR ''N'') = CHR ''n''"
  "lower (CHR ''B'') = CHR ''b''" "lower (CHR ''R'') = CHR ''r''" "lower (CHR ''Q'') = CHR ''q''"
  "lower (CHR ''K'') = CHR ''k''" "lower (CHR ''p'') = CHR ''p''" "lower (CHR ''n'') = CHR ''n''"
  "lower (CHR ''b'') = CHR ''b''" "lower (CHR ''r'') = CHR ''r''" "lower (CHR ''q'') = CHR ''q''"
  "lower (CHR ''k'') = CHR ''k''"
  by code_simp+

lemma upper_tab:
  "upper (CHR ''.'') = CHR ''.''" "upper (CHR ''P'') = CHR ''P''" "upper (CHR ''N'') = CHR ''N''"
  "upper (CHR ''B'') = CHR ''B''" "upper (CHR ''R'') = CHR ''R''" "upper (CHR ''Q'') = CHR ''Q''"
  "upper (CHR ''K'') = CHR ''K''" "upper (CHR ''p'') = CHR ''P''" "upper (CHR ''n'') = CHR ''N''"
  "upper (CHR ''b'') = CHR ''B''" "upper (CHR ''r'') = CHR ''R''" "upper (CHR ''q'') = CHR ''Q''"
  "upper (CHR ''k'') = CHR ''K''"
  by code_simp+

lemma char_eq_tab:
  "(CHR ''.'' = CHR ''.'') = True" "(CHR ''.'' = CHR ''P'') = False" "(CHR ''.'' = CHR ''N'') = False"
  "(CHR ''.'' = CHR ''B'') = False" "(CHR ''.'' = CHR ''R'') = False" "(CHR ''.'' = CHR ''Q'') = False"
  "(CHR ''.'' = CHR ''K'') = False" "(CHR ''.'' = CHR ''p'') = False" "(CHR ''.'' = CHR ''n'') = False"
  "(CHR ''.'' = CHR ''b'') = False" "(CHR ''.'' = CHR ''r'') = False" "(CHR ''.'' = CHR ''q'') = False"
  "(CHR ''.'' = CHR ''k'') = False" "(CHR ''P'' = CHR ''.'') = False" "(CHR ''P'' = CHR ''P'') = True"
  "(CHR ''P'' = CHR ''N'') = False" "(CHR ''P'' = CHR ''B'') = False" "(CHR ''P'' = CHR ''R'') = False"
  "(CHR ''P'' = CHR ''Q'') = False" "(CHR ''P'' = CHR ''K'') = False" "(CHR ''P'' = CHR ''p'') = False"
  "(CHR ''P'' = CHR ''n'') = False" "(CHR ''P'' = CHR ''b'') = False" "(CHR ''P'' = CHR ''r'') = False"
  "(CHR ''P'' = CHR ''q'') = False" "(CHR ''P'' = CHR ''k'') = False" "(CHR ''N'' = CHR ''.'') = False"
  "(CHR ''N'' = CHR ''P'') = False" "(CHR ''N'' = CHR ''N'') = True" "(CHR ''N'' = CHR ''B'') = False"
  "(CHR ''N'' = CHR ''R'') = False" "(CHR ''N'' = CHR ''Q'') = False" "(CHR ''N'' = CHR ''K'') = False"
  "(CHR ''N'' = CHR ''p'') = False" "(CHR ''N'' = CHR ''n'') = False" "(CHR ''N'' = CHR ''b'') = False"
  "(CHR ''N'' = CHR ''r'') = False" "(CHR ''N'' = CHR ''q'') = False" "(CHR ''N'' = CHR ''k'') = False"
  "(CHR ''B'' = CHR ''.'') = False" "(CHR ''B'' = CHR ''P'') = False" "(CHR ''B'' = CHR ''N'') = False"
  "(CHR ''B'' = CHR ''B'') = True" "(CHR ''B'' = CHR ''R'') = False" "(CHR ''B'' = CHR ''Q'') = False"
  "(CHR ''B'' = CHR ''K'') = False" "(CHR ''B'' = CHR ''p'') = False" "(CHR ''B'' = CHR ''n'') = False"
  "(CHR ''B'' = CHR ''b'') = False" "(CHR ''B'' = CHR ''r'') = False" "(CHR ''B'' = CHR ''q'') = False"
  "(CHR ''B'' = CHR ''k'') = False" "(CHR ''R'' = CHR ''.'') = False" "(CHR ''R'' = CHR ''P'') = False"
  "(CHR ''R'' = CHR ''N'') = False" "(CHR ''R'' = CHR ''B'') = False" "(CHR ''R'' = CHR ''R'') = True"
  "(CHR ''R'' = CHR ''Q'') = False" "(CHR ''R'' = CHR ''K'') = False" "(CHR ''R'' = CHR ''p'') = False"
  "(CHR ''R'' = CHR ''n'') = False" "(CHR ''R'' = CHR ''b'') = False" "(CHR ''R'' = CHR ''r'') = False"
  "(CHR ''R'' = CHR ''q'') = False" "(CHR ''R'' = CHR ''k'') = False" "(CHR ''Q'' = CHR ''.'') = False"
  "(CHR ''Q'' = CHR ''P'') = False" "(CHR ''Q'' = CHR ''N'') = False" "(CHR ''Q'' = CHR ''B'') = False"
  "(CHR ''Q'' = CHR ''R'') = False" "(CHR ''Q'' = CHR ''Q'') = True" "(CHR ''Q'' = CHR ''K'') = False"
  "(CHR ''Q'' = CHR ''p'') = False" "(CHR ''Q'' = CHR ''n'') = False" "(CHR ''Q'' = CHR ''b'') = False"
  "(CHR ''Q'' = CHR ''r'') = False" "(CHR ''Q'' = CHR ''q'') = False" "(CHR ''Q'' = CHR ''k'') = False"
  "(CHR ''K'' = CHR ''.'') = False" "(CHR ''K'' = CHR ''P'') = False" "(CHR ''K'' = CHR ''N'') = False"
  "(CHR ''K'' = CHR ''B'') = False" "(CHR ''K'' = CHR ''R'') = False" "(CHR ''K'' = CHR ''Q'') = False"
  "(CHR ''K'' = CHR ''K'') = True" "(CHR ''K'' = CHR ''p'') = False" "(CHR ''K'' = CHR ''n'') = False"
  "(CHR ''K'' = CHR ''b'') = False" "(CHR ''K'' = CHR ''r'') = False" "(CHR ''K'' = CHR ''q'') = False"
  "(CHR ''K'' = CHR ''k'') = False" "(CHR ''p'' = CHR ''.'') = False" "(CHR ''p'' = CHR ''P'') = False"
  "(CHR ''p'' = CHR ''N'') = False" "(CHR ''p'' = CHR ''B'') = False" "(CHR ''p'' = CHR ''R'') = False"
  "(CHR ''p'' = CHR ''Q'') = False" "(CHR ''p'' = CHR ''K'') = False" "(CHR ''p'' = CHR ''p'') = True"
  "(CHR ''p'' = CHR ''n'') = False" "(CHR ''p'' = CHR ''b'') = False" "(CHR ''p'' = CHR ''r'') = False"
  "(CHR ''p'' = CHR ''q'') = False" "(CHR ''p'' = CHR ''k'') = False" "(CHR ''n'' = CHR ''.'') = False"
  "(CHR ''n'' = CHR ''P'') = False" "(CHR ''n'' = CHR ''N'') = False" "(CHR ''n'' = CHR ''B'') = False"
  "(CHR ''n'' = CHR ''R'') = False" "(CHR ''n'' = CHR ''Q'') = False" "(CHR ''n'' = CHR ''K'') = False"
  "(CHR ''n'' = CHR ''p'') = False" "(CHR ''n'' = CHR ''n'') = True" "(CHR ''n'' = CHR ''b'') = False"
  "(CHR ''n'' = CHR ''r'') = False" "(CHR ''n'' = CHR ''q'') = False" "(CHR ''n'' = CHR ''k'') = False"
  "(CHR ''b'' = CHR ''.'') = False" "(CHR ''b'' = CHR ''P'') = False" "(CHR ''b'' = CHR ''N'') = False"
  "(CHR ''b'' = CHR ''B'') = False" "(CHR ''b'' = CHR ''R'') = False" "(CHR ''b'' = CHR ''Q'') = False"
  "(CHR ''b'' = CHR ''K'') = False" "(CHR ''b'' = CHR ''p'') = False" "(CHR ''b'' = CHR ''n'') = False"
  "(CHR ''b'' = CHR ''b'') = True" "(CHR ''b'' = CHR ''r'') = False" "(CHR ''b'' = CHR ''q'') = False"
  "(CHR ''b'' = CHR ''k'') = False" "(CHR ''r'' = CHR ''.'') = False" "(CHR ''r'' = CHR ''P'') = False"
  "(CHR ''r'' = CHR ''N'') = False" "(CHR ''r'' = CHR ''B'') = False" "(CHR ''r'' = CHR ''R'') = False"
  "(CHR ''r'' = CHR ''Q'') = False" "(CHR ''r'' = CHR ''K'') = False" "(CHR ''r'' = CHR ''p'') = False"
  "(CHR ''r'' = CHR ''n'') = False" "(CHR ''r'' = CHR ''b'') = False" "(CHR ''r'' = CHR ''r'') = True"
  "(CHR ''r'' = CHR ''q'') = False" "(CHR ''r'' = CHR ''k'') = False" "(CHR ''q'' = CHR ''.'') = False"
  "(CHR ''q'' = CHR ''P'') = False" "(CHR ''q'' = CHR ''N'') = False" "(CHR ''q'' = CHR ''B'') = False"
  "(CHR ''q'' = CHR ''R'') = False" "(CHR ''q'' = CHR ''Q'') = False" "(CHR ''q'' = CHR ''K'') = False"
  "(CHR ''q'' = CHR ''p'') = False" "(CHR ''q'' = CHR ''n'') = False" "(CHR ''q'' = CHR ''b'') = False"
  "(CHR ''q'' = CHR ''r'') = False" "(CHR ''q'' = CHR ''q'') = True" "(CHR ''q'' = CHR ''k'') = False"
  "(CHR ''k'' = CHR ''.'') = False" "(CHR ''k'' = CHR ''P'') = False" "(CHR ''k'' = CHR ''N'') = False"
  "(CHR ''k'' = CHR ''B'') = False" "(CHR ''k'' = CHR ''R'') = False" "(CHR ''k'' = CHR ''Q'') = False"
  "(CHR ''k'' = CHR ''K'') = False" "(CHR ''k'' = CHR ''p'') = False" "(CHR ''k'' = CHR ''n'') = False"
  "(CHR ''k'' = CHR ''b'') = False" "(CHR ''k'' = CHR ''r'') = False" "(CHR ''k'' = CHR ''q'') = False"
  "(CHR ''k'' = CHR ''k'') = True"
  by simp_all

lemma ord_a: "ord (CHR ''a'') = 97"
  by (simp add: ord_Char)

lemma py_chr_tab:
  "py_chr 97 = Inr (CHR ''a'')" "py_chr 98 = Inr (CHR ''b'')" "py_chr 99 = Inr (CHR ''c'')"
  "py_chr 100 = Inr (CHR ''d'')" "py_chr 101 = Inr (CHR ''e'')" "py_chr 102 = Inr (CHR ''f'')"
  "py_chr 103 = Inr (CHR ''g'')" "py_chr 104 = Inr (CHR ''h'')"
  by code_simp+

lemma int_of_char_tab:
  "int_of_char (CHR ''1'') = Inr Numeral1" "int_of_char (CHR ''2'') = Inr 2" "int_of_char (CHR ''3'') = Inr 3"
  "int_of_char (CHR ''4'') = Inr 4" "int_of_char (CHR ''5'') = Inr 5" "int_of_char (CHR ''6'') = Inr 6"
  "int_of_char (CHR ''7'') = Inr 7" "int_of_char (CHR ''8'') = Inr 8"
  by (simp_all add: int_of_char_def isdigit_def ord_Char)

lemma py_str_tab:
  "py_str Numeral1 = ''1''" "py_str 2 = ''2''" "py_str 3 = ''3''" "py_str 4 = ''4''"
  "py_str 5 = ''5''" "py_str 6 = ''6''" "py_str 7 = ''7''" "py_str 8 = ''8''"
  by code_simp+

lemma div_tab: "(10::int) div 2 = 5" "(4::int) div 2 = 2"
  by simp_all

lemma str_eq_tab:
  "(''w'' = ''w'') = True" "(''b'' = ''w'') = False" "(''w'' = ''b'') = False"
  "(''b'' = ''b'') = True" "(''-'' = ''-'') = True" "(''w'' = []) = False"
  "(''b'' = []) = False" "([x, y] = ''-'') = False"
  by simp_all

lemma py_get8:
  "py_get [a0, a1, a2, a3, a4, a5, a6, a7] 0 = Inr a0"
  "py_get [a0, a1, a2, a3, a4, a5, a6, a7] Numeral1 = Inr a1"
  "py_get [a0, a1, a2, a3, a4, a5, a6, a7] 2 = Inr a2"
  "py_get [a0, a1, a2, a3, a4, a5, a6, a7] 3 = Inr a3"
  "py_get [a0, a1, a2, a3, a4, a5, a6, a7] 4 = Inr a4"
  "py_get [a0, a1, a2, a3, a4, a5, a6, a7] 5 = Inr a5"
  "py_get [a0, a1, a2, a3, a4, a5, a6, a7] 6 = Inr a6"
  "py_get [a0, a1, a2, a3, a4, a5, a6, a7] 7 = Inr a7"
  by (simp_all add: py_get_def)

lemma py_set8:
  "py_set [a0, a1, a2, a3, a4, a5, a6, a7] 0 v = Inr [v, a1, a2, a3, a4, a5, a6, a7]"
  "py_set [a0, a1, a2, a3, a4, a5, a6, a7] Numeral1 v = Inr [a0, v, a2, a3, a4, a5, a6, a7]"
  "py_set [a0, a1, a2, a3, a4, a5, a6, a7] 2 v = Inr [a0, a1, v, a3, a4, a5, a6, a7]"
  "py_set [a0, a1, a2, a3, a4, a5, a6, a7] 3 v = Inr [a0, a1, a2, v, a4, a5, a6, a7]"
  "py_set [a0, a1, a2, a3, a4, a5, a6, a7] 4 v = Inr [a0, a1, a2, a3, v, a5, a6, a7]"
  "py_set [a0, a1, a2, a3, a4, a5, a6, a7] 5 v = Inr [a0, a1, a2, a3, a4, v, a6, a7]"
  "py_set [a0, a1, a2, a3, a4, a5, a6, a7] 6 v = Inr [a0, a1, a2, a3, a4, a5, v, a7]"
  "py_set [a0, a1, a2, a3, a4, a5, a6, a7] 7 v = Inr [a0, a1, a2, a3, a4, a5, a6, v]"
  by (simp_all add: py_set_def)

lemma py_get2: "py_get [x, y] 0 = Inr x" "py_get [x, y] Numeral1 = Inr y"
  by (simp_all add: py_get_def)

lemma cell_board8:
  "cell (board \<lparr>board = [r0, r1, r2, r3, r4, r5, r6, r7], turn = t, castling = ca, ep = e,
       halfmove = h, fullmove = f, move_history = mh, pos_history = ph, cap_white = cw,
       cap_black = cb, material_cache = mc\<rparr>) 0 c
      = py_get r0 c"
  "cell (board \<lparr>board = [r0, r1, r2, r3, r4, r5, r6, r7], turn = t, castling = ca, ep = e,
       halfmove = h, fullmove = f, move_history = mh, pos_history = ph, cap_white = cw,
       cap_black = cb, material_cache = mc\<rparr>) Numeral1 c
      = py_get r1 c"
  "cell (board \<lparr>board = [r0, r1, r2, r3, r4, r5, r6, r7], turn = t, castling = ca, ep = e,
       halfmove = h, fullmove = f, move_history = mh, pos_history = ph, cap_white = cw,
       cap_black = cb, material_cache = mc\<rparr>) 2 c
      = py_get r2 c"
  "cell (board \<lparr>board = [r0, r1, r2, r3, r4, r5, r6, r7], turn = t, castling = ca, ep = e,
       halfmove = h, fullmove = f, move_history = mh, pos_history = ph, cap_white = cw,
       cap_black = cb, material_cache = mc\<rparr>) 3 c
      = py_get r3 c"
  "cell (board \<lparr>board = [r0, r1, r2, r3, r4, r5, r6, r7], turn = t, castling = ca, ep = e,
       halfmove = h, fullmove = f, move_history = mh, pos_history = ph, cap_white = cw,
       cap_black = cb, material_cache = mc\<rparr>) 4 c
      = py_get r4 c"
  "cell (board \<lparr>board = [r0, r1, r2, r3, r4, r5, r6, r7], turn = t, castling = ca, ep = e,
       halfmove = h, fullmove = f, move_history = mh, pos_history = ph, cap_white = cw,
       cap_black = cb, material_cache = mc\<rparr>) 5 c
      = py_get r5 c"
  "cell (board \<lparr>board = [r0, r1, r2, r3, r4, r5, r6, r7], turn = t, castling = ca, ep = e,
       halfmove = h, fullmove = f, move_history = mh, pos_history = ph, cap_white = cw,
       cap_black = cb, material_cache = mc\<rparr>) 6 c
      = py_get r6 c"
  "cell (board \<lparr>board = [r0, r1, r2, r3, r4, r5, r6, r7], turn = t, castling = ca, ep = e,
       halfmove = h, fullmove = f, move_history = mh, pos_history = ph, cap_white = cw,
       cap_black = cb, material_cache = mc\<rparr>) 7 c
      = py_get r7 c"
  by (simp_all add: cell_def py_get_def)

lemma cell_grid8:
  "cell [r0, r1, r2, r3, r4, r5, r6, r7] 0 c = py_get r0 c"
  "cell [r0, r1, r2, r3, r4, r5, r6, r7] Numeral1 c = py_get r1 c"
  "cell [r0, r1, r2, r3, r4, r5, r6, r7] 2 c = py_get r2 c"
  "cell [r0, r1, r2, r3, r4, r5, r6, r7] 3 c = py_get r3 c"
  "cell [r0, r1, r2, r3, r4, r5, r6, r7] 4 c = py_get r4 c"
  "cell [r0, r1, r2, r3, r4, r5, r6, r7] 5 c = py_get r5 c"
  "cell [r0, r1, r2, r3, r4, r5, r6, r7] 6 c = py_get r6 c"
  "cell [r0, r1, r2, r3, r4, r5, r6, r7] 7 c = py_get r7 c"
  by (simp_all add: cell_def py_get_def)

lemma set_cell_grid8:
  "set_cell [r0, r1, r2, r3, r4, r5, r6, r7] 0 c v =
     bindE (py_set r0 c v) (\<lambda>row. Inr [row, r1, r2, r3, r4, r5, r6, r7])"
  "set_cell [r0, r1, r2, r3, r4, r5, r6, r7] Numeral1 c v =
     bindE (py_set r1 c v) (\<lambda>row. Inr [r0, row, r2, r3, r4, r5, r6, r7])"
  "set_cell [r0, r1, r2, r3, r4, r5, r6, r7] 2 c v =
     bindE (py_set r2 c v) (\<lambda>row. Inr [r0, r1, row, r3, r4, r5, r6, r7])"
  "set_cell [r0, r1, r2, r3, r4, r5, r6, r7] 3 c v =
     bindE (py_set r3 c v) (\<lambda>row. Inr [r0, r1, r2, row, r4, r5, r6, r7])"
  "set_cell [r0, r1, r2, r3, r4, r5, r6, r7] 4 c v =
     bindE (py_set r4 c v) (\<lambda>row. Inr [r0, r1, r2, r3, row, r5, r6, r7])"
  "set_cell [r0, r1, r2, r3, r4, r5, r6, r7] 5 c v =
     bindE (py_set r5 c v) (\<lambda>row. Inr [r0, r1, r2, r3, r4, row, r6, r7])"
  "set_cell [r0, r1, r2, r3, r4, r5, r6, r7] 6 c v =
     bindE (py_set r6 c v) (\<lambda>row. Inr [r0, r1, r2, r3, r4, r5, row, r7])"
  "set_cell [r0, r1, r2, r3, r4, r5, r6, r7] 7 c v =
     bindE (py_set r7 c v) (\<lambda>row. Inr [r0, r1, r2, r3, r4, r5, r6, row])"
  by (simp_all add: set_cell_def py_get_def py_set_def bindE_def split: sum.splits)

lemma weak_congs:
  "m = m' \<Longrightarrow> bindE m f = bindE m' f"
  "a = a' \<Longrightarrow> and_e a b = and_e a' b"
  "ys = ys' \<Longrightarrow> any_e fa ys = any_e fa ys'"
  "zs = zs' \<Longrightarrow> concat_e fc zs = concat_e fc zs'"
  "ws = ws' \<Longrightarrow> filter_e ff ws = filter_e ff ws'"
  "r = r' \<Longrightarrow> c = c' \<Longrightarrow> cell g r c = cell g r' c'"
  "r = r' \<Longrightarrow> c = c' \<Longrightarrow> v = v' \<Longrightarrow> set_cell g r c v = set_cell g r' c' v'"
  "t = t' \<Longrightarrow> find_king s t = find_king s t'"
  "r = r' \<Longrightarrow> c = c' \<Longrightarrow> t = t' \<Longrightarrow> is_attacked s r c t = is_attacked s r' c' t'"
  "ta = ta' \<Longrightarrow> in_check s ta = in_check s ta'"
  "ta = ta' \<Longrightarrow> turn_or ta s = turn_or ta' s"
  "r = r' \<Longrightarrow> c = c' \<Longrightarrow> pseudo s r c = pseudo s r' c'"
  "t = t' \<Longrightarrow> r = r' \<Longrightarrow> c = c' \<Longrightarrow> pawn_moves s t r c = pawn_moves s t' r' c'"
  "t = t' \<Longrightarrow> r = r' \<Longrightarrow> c = c' \<Longrightarrow> castle_moves s t r c = castle_moves s t' r' c'"
  "r = r' \<Longrightarrow> c = c' \<Longrightarrow> step_moves g p r c ds = step_moves g p r' c' ds"
  "mv = mv' \<Longrightarrow> apply_raw s mv = apply_raw s mv'"
  "t = t' \<Longrightarrow> mv = mv' \<Longrightarrow> keeps_king_safe s t mv = keeps_king_safe s t' mv'"
  "ta = ta' \<Longrightarrow> legal_moves s ta = legal_moves s ta'"
  "nr = nr' \<Longrightarrow> nc = nc' \<Longrightarrow> scan_ray g hit nr nc dr dc = scan_ray g hit nr' nc' dr dc"
  "nr = nr' \<Longrightarrow> nc = nc' \<Longrightarrow> slide g t r c nr nc dr dc = slide g t r c nr' nc' dr dc"
  by simp_all

lemma frozen_congs:
  "first_e f xs = first_e f xs"
  "turn s = turn s" "ep s = ep s" "castling s = castling s" "halfmove s = halfmove s"
  "fullmove s = fullmove s"
  by (rule refl)+

lemmas board_cong = weak_congs frozen_congs sum.case_cong_weak option.case_cong_weak
  prod.case_cong_weak let_weak_cong if_weak_cong

lemmas num1 = numeral_One [symmetric]

lemmas board_eval =
  bindE_simps and_e_simps isupper_tab islower_tab lower_tab upper_tab char_eq_tab ord_a
  py_chr_tab int_of_char_tab py_str_tab div_tab str_eq_tab py_get8 py_set8 py_get2
  cell_board8 cell_grid8 set_cell_grid8
  first_e.simps any_e.simps concat_e.simps filter_e.simps
  prod.case sum.case option.case if_True if_False Let_def list.map append.simps list.set
  insert_iff empty_iff list.simps fold_simps remove1.simps filter.simps
  simp_thms arith_simps rel_simps num1 diff_numeral_special add_neg_numeral_special
  abs_numeral abs_neg_numeral char.inject position.simps option.simps
  valid_def is_w_def is_b_def same_def enemy_def turn_or_def promotions_def
  find_king_def [unfolded squares_def range8_def concat.simps list.map append.simps num1]
  is_attacked_def [unfolded ROOK_D_def BISHOP_D_def KNIGHT_D_def KING_D_def append.simps num1]
  in_check_def is_ep_square_def [unfolded num1] pawn_moves_def [unfolded num1]
  step_moves_def castle_moves_def [unfolded num1]
  pseudo_def [unfolded ROOK_D_def BISHOP_D_def QUEEN_D_def KNIGHT_D_def KING_D_def
    append.simps num1]
  scan_ray.simps slide.simps remove_flags_def [unfolded num1] apply_raw_def [unfolded num1]
  keeps_king_safe_def legal_moves_def [unfolded range8_def num1]

section \<open>Move counts from the starting position\<close>

lemma new_board_split:
  "py_split START_FEN =
     [''rnbqkbnr/pppppppp/8/8/8/8/PPPPPPPP/RNBQKBNR'', ''w'', ''KQkq'', ''-'', ''0'', ''1'']"
  by (simp add: py_split_def START_FEN_def isspace_def ord_Char)

lemma new_board_rows:
  "load_rows (py_split_on (CHR ''/'') ''rnbqkbnr/pppppppp/8/8/8/8/PPPPPPPP/RNBQKBNR'')
     = Inr (board start_position)"
  by (simp add: py_split_on_def isdigit_def int_of_char_def ord_Char start_position_def
      eval_nat_numeral)

lemma new_board_ints: "py_int ''0'' = Inr 0" "py_int ''1'' = Inr 1"
  by (simp_all add: py_int_def strip_def isspace_def isdigit_def digits_val_def ord_Char)

lemma new_board_start: "new_board = Inr start_position"
  by (simp add: new_board_def load_fen_def new_board_split new_board_rows new_board_ints
      py_get_def)
     (simp add: start_position_def)

lemma legal_start:
  "legal_moves start_position None = Inr
     [(6, 0, 5, 0, None), (6, 0, 4, 0, None), (6, 1, 5, 1, None),
      (6, 1, 4, 1, None), (6, 2, 5, 2, None), (6, 2, 4, 2, None),
      (6, 3, 5, 3, None), (6, 3, 4, 3, None), (6, 4, 5, 4, None),
      (6, 4, 4, 4, None), (6, 5, 5, 5, None), (6, 5, 4, 5, None),
      (6, 6, 5, 6, None), (6, 6, 4, 6, None), (6, 7, 5, 7, None),
      (6, 7, 4, 7, None), (7, 1, 5, 2, None), (7, 1, 5, 0, None),
      (7, 6, 5, 7, None), (7, 6, 5, 5, None)]"
  unfolding start_position_def by (simp only: board_eval cong: board_cong)

lemma reply_01: "reply_count start_position (6, 0, 5, 0, None) = Inr 20"
  unfolding start_position_def reply_count_def count_moves_def
  by (simp only: board_eval cong: board_cong) simp

lemma reply_02: "reply_count start_position (6, 0, 4, 0, None) = Inr 20"
  unfolding start_position_def reply_count_def count_moves_def
  by (simp only: board_eval cong: board_cong) simp

lemma reply_03: "reply_count start_position (6, 1, 5, 1, None) = Inr 20"
  unfolding start_position_def reply_count_def count_moves_def
  by (simp only: board_eval cong: board_cong) simp

lemma reply_04: "reply_count start_position (6, 1, 4, 1, None) = Inr 20"
  unfolding start_position_def reply_count_def count_moves_def
  by (simp only: board_eval cong: board_cong) simp

lemma reply_05: "reply_count start_position (6, 2, 5, 2, None) = Inr 20"
  unfolding start_position_def reply_count_def count_moves_def
  by (simp only: board_eval cong: board_cong) simp

lemma reply_06: "reply_count start_position (6, 2, 4, 2, None) = Inr 20"
  unfolding start_position_def reply_count_def count_moves_def
  by (simp only: board_eval cong: board_cong) simp

lemma reply_07: "reply_count start_position (6, 3, 5, 3, None) = Inr 20"
  unfolding start_position_def reply_count_def count_moves_def
  by (simp only: board_eval cong: board_cong) simp

lemma reply_08: "reply_count start_position (6, 3, 4, 3, None) = Inr 20"
  unfolding start_position_def reply_count_def count_moves_def
  by (simp only: board_eval cong: board_cong) simp

lemma reply_09: "reply_count start_position (6, 4, 5, 4, None) = Inr 20"
  unfolding start_position_def reply_count_def count_moves_def
  by (simp only: board_eval cong: board_cong) simp

lemma reply_10: "reply_count start_position (6, 4, 4, 4, None) = Inr 20"
  unfolding start_position_def reply_count_def count_moves_def
  by (simp only: board_eval cong: board_cong) simp

lemma reply_11: "reply_count start_position (6, 5, 5, 5, None) = Inr 20"
  unfolding start_position_def reply_count_def count_moves_def
  by (simp only: board_eval cong: board_cong) simp

lemma reply_12: "reply_count start_position (6, 5, 4, 5, None) = Inr 20"
  unfolding start_position_def reply_count_def count_moves_def
  by (simp only: board_eval cong: board_cong) simp

lemma reply_13: "reply_count start_position (6, 6, 5, 6, None) = Inr 20"
  unfolding start_position_def reply_count_def count_moves_def
  by (simp only: board_eval cong: board_cong) simp

lemma reply_14: "reply_count start_position (6, 6, 4, 6, None) = Inr 20"
  unfolding start_position_def reply_count_def count_moves_def
  by (simp only: board_eval cong: board_cong) simp

lemma reply_15: "reply_count start_position (6, 7, 5, 7, None) = Inr 20"
  unfolding start_position_def reply_count_def count_moves_def
  by (simp only: board_eval cong: board_cong) simp

lemma reply_16: "reply_count start_position (6, 7, 4, 7, None) = Inr 20"
  unfolding start_position_def reply_count_def count_moves_def
  by (simp only: board_eval cong: board_cong) simp

lemma reply_17: "reply_count start_position (7, 1, 5, 2, None) = Inr 20"
  unfolding start_position_def reply_count_def count_moves_def
  by (simp only: board_eval cong: board_cong) simp

lemma reply_18: "reply_count start_position (7, 1, 5, 0, None) = Inr 20"
  unfolding start_position_def reply_count_def count_moves_def
  by (simp only: board_eval cong: board_cong) simp

lemma reply_19: "reply_count start_position (7, 6, 5, 7, None) = Inr 20"
  unfolding start_position_def reply_count_def count_moves_def
  by (simp only: board_eval cong: board_cong) simp

lemma reply_20: "reply_count start_position (7, 6, 5, 5, None) = Inr 20"
  unfolding start_position_def reply_count_def count_moves_def
  by (simp only: board_eval cong: board_cong) simp

text \<open>
  Claim C1. From the position that \<^verbatim>\<open>Board()\<close> builds, \<^verbatim>\<open>legal_moves()\<close> returns 20
  moves, and the numbers of legal replies after each of them add up to 400.
\<close>

theorem perft_start:
  "bindE new_board count_moves = Inr 20 \<and> bindE new_board perft2 = Inr 400"
  by (simp add: new_board_start count_moves_def perft2_def legal_start
      reply_01 reply_02 reply_03 reply_04 reply_05 reply_06 reply_07
      reply_08 reply_09 reply_10 reply_11 reply_12 reply_13 reply_14
      reply_15 reply_16 reply_17 reply_18 reply_19 reply_20)

end
